theory Spec2Isabelle
  imports Main
begin

section \<open>The personal API of \<^verbatim>\<open>main.py\<close>\<close>

text \<open>
  The module defines two pydantic models, one memoized constructor function and three
  route handlers. Everything a handler does beyond returning a value is made explicit:
  the wall clock it reads, the objects it allocates and the cache of
  \<^verbatim>\<open>get_personal_info\<close> live in a process state that every function takes and
  returns.
\<close>

subsection \<open>Values and models\<close>

text \<open>
  A \<^verbatim>\<open>datetime\<close> is a reading of the wall clock, counted in microseconds (the
  resolution of Python's \<^verbatim>\<open>datetime\<close>) from the clock's origin. Readings are
  ordered as numbers; nothing makes a later reading the larger one.
\<close>

type_synonym datetime = nat

text \<open>
  A Python \<^verbatim>\<open>Dict[str, str]\<close> keeps its keys in insertion order: an association
  list whose keys are distinct.
\<close>

type_synonym str_dict = "(string \<times> string) list"

text \<open>The Python values that occur as a field of a reply; \<open>PyNone\<close> is \<^verbatim>\<open>None\<close>.\<close>

datatype pyval =
    PyNone
  | PyStr string
  | PyInt int
  | PyDatetime datetime
  | PyDict str_dict

text \<open>
  \<^verbatim>\<open>
  class PersonalInfo(BaseModel):
      name: str
      bio: str
      current_status: str
      last_updated: datetime = datetime.now()
  \<close>
\<close>

record PersonalInfo =
  name :: string
  bio :: string
  current_status :: string
  last_updated :: datetime

text \<open>
  \<^verbatim>\<open>
  class StudyInfo(BaseModel):
      institution: str
      course: str
      year: int
      achievements: Optional[Dict[str, str]] = None
  \<close>
\<close>

record StudyInfo =
  institution :: string
  course :: string
  year :: int
  achievements :: "str_dict option"

text \<open>
  The objects the module allocates: instances of the two models and the plain
  \<^verbatim>\<open>dict\<close> that \<^verbatim>\<open>root\<close> returns.
\<close>

datatype obj =
    PersonalInfoObj PersonalInfo
  | StudyInfoObj StudyInfo
  | DictObj "(string \<times> pyval) list"

subsection \<open>The process state\<close>

text \<open>
  \<^item> \<open>clock\<close>: what \<^verbatim>\<open>datetime.now()\<close> returns at this moment;
  \<^item> \<open>PersonalInfo_last_updated_default\<close>: the class attribute holding the default of
    \<^verbatim>\<open>last_updated\<close>. The expression \<^verbatim>\<open>datetime.now()\<close> on the right of
    the field declaration is evaluated when the class body runs, once;
  \<^item> \<open>heap\<close>: the objects constructed so far; the address of an object is its index.
    Construction appends, nothing is ever removed;
  \<^item> \<open>get_personal_info_cache\<close>: the cache that \<^verbatim>\<open>@lru_cache()\<close> puts around
    \<^verbatim>\<open>get_personal_info\<close>. The function has no parameter, so the only key is the
    empty argument tuple and the cache holds at most one entry: the address of the
    object returned by the first call.
\<close>

record process =
  clock :: datetime
  PersonalInfo_last_updated_default :: datetime
  heap :: "obj list"
  get_personal_info_cache :: "nat option"

definition datetime_now :: "process \<Rightarrow> datetime" where
  "datetime_now p = clock p"

definition alloc :: "obj \<Rightarrow> process \<Rightarrow> nat \<times> process" where
  "alloc ob p = (length (heap p), p\<lparr>heap := heap p @ [ob]\<rparr>)"

text \<open>Reading an address; an address that was never allocated holds nothing.\<close>

definition deref :: "process \<Rightarrow> nat \<Rightarrow> obj option" where
  "deref p a = (if a < length (heap p) then Some (heap p ! a) else None)"

text \<open>
  Executing the module at clock reading \<open>t\<close>: the class bodies run (fixing the default of
  \<^verbatim>\<open>last_updated\<close>), the functions are defined with an empty cache, the routes
  are registered. No object of the models exists yet.
\<close>

definition load_module :: "datetime \<Rightarrow> process" where
  "load_module t =
     \<lparr>clock = t, PersonalInfo_last_updated_default = t, heap = [],
      get_personal_info_cache = None\<rparr>"

subsection \<open>Constructors\<close>

text \<open>
  The constructor of \<^verbatim>\<open>PersonalInfo\<close>: the caller may pass \<^verbatim>\<open>last_updated\<close>
  (\<open>Some t\<close>) or leave it out (\<open>None\<close>), and then the field takes the class's default.
  The parameters have the types the fields are declared with, so pydantic's validation
  has nothing to reject and the constructor always returns.
\<close>

definition PersonalInfo_init ::
    "string \<Rightarrow> string \<Rightarrow> string \<Rightarrow> datetime option \<Rightarrow> process \<Rightarrow> nat \<times> process" where
  "PersonalInfo_init n b s lu p =
     alloc (PersonalInfoObj
       \<lparr>name = n, bio = b, current_status = s,
        last_updated = (case lu of None \<Rightarrow> PersonalInfo_last_updated_default p | Some t \<Rightarrow> t)\<rparr>) p"

text \<open>
  The constructor of \<^verbatim>\<open>StudyInfo\<close>: \<^verbatim>\<open>achievements\<close> left out is
  \<^verbatim>\<open>None\<close>, the declared default.
\<close>

definition StudyInfo_init ::
    "string \<Rightarrow> string \<Rightarrow> int \<Rightarrow> str_dict option \<Rightarrow> process \<Rightarrow> nat \<times> process" where
  "StudyInfo_init i c y ach p =
     alloc (StudyInfoObj \<lparr>institution = i, course = c, year = y, achievements = ach\<rparr>) p"

subsection \<open>The memoized function and the handlers\<close>

text \<open>
  \<^verbatim>\<open>
  @lru_cache()
  def get_personal_info() -> PersonalInfo:
      return PersonalInfo(name="Your Name", bio="Your Bio", current_status="Available")
  \<close>
  A hit returns the cached object; a miss runs the body and stores its result.
\<close>

definition get_personal_info :: "process \<Rightarrow> nat \<times> process" where
  "get_personal_info p =
     (case get_personal_info_cache p of
        Some a \<Rightarrow> (a, p)
      | None \<Rightarrow>
          (let (a, p') = PersonalInfo_init ''Your Name'' ''Your Bio'' ''Available'' None p
           in (a, p'\<lparr>get_personal_info_cache := Some a\<rparr>)))"

text \<open>
  \<^verbatim>\<open>
  @app.get("/", response_model=dict)
  async def root() -> dict:
      return {"status": "online", "timestamp": datetime.now()}
  \<close>
\<close>

definition root :: "process \<Rightarrow> nat \<times> process" where
  "root p =
     alloc (DictObj [(''status'', PyStr ''online''), (''timestamp'', PyDatetime (datetime_now p))]) p"

text \<open>
  \<^verbatim>\<open>
  @app.get("/info", response_model=PersonalInfo)
  async def get_info() -> PersonalInfo:
      return get_personal_info()
  \<close>
\<close>

definition get_info :: "process \<Rightarrow> nat \<times> process" where
  "get_info p = get_personal_info p"

text \<open>
  \<^verbatim>\<open>
  @app.get("/study", response_model=StudyInfo)
  async def get_study_info() -> StudyInfo:
      return StudyInfo(institution="Your University", course="Your Course", year=2024,
          achievements={"2024": "Dean's List", "2023": "Best Project Award"})
  \<close>
\<close>

definition get_study_info :: "process \<Rightarrow> nat \<times> process" where
  "get_study_info p =
     StudyInfo_init ''Your University'' ''Your Course'' 2024
       (Some [(''2024'', ''Dean's List''), (''2023'', ''Best Project Award'')]) p"

subsection \<open>Runs of the process\<close>

text \<open>
  The three registered routes, \<^verbatim>\<open>GET /\<close>, \<^verbatim>\<open>GET /info\<close> and
  \<^verbatim>\<open>GET /study\<close>, each with the handler its decorator binds.
\<close>

datatype endpoint = Root | Info | Study

fun call :: "endpoint \<Rightarrow> process \<Rightarrow> nat \<times> process" where
  "call Root p = root p"
| "call Info p = get_info p"
| "call Study p = get_study_info p"

text \<open>
  What happens to a loaded process: time passes (the clock moves forward by some number
  of microseconds), the wall clock is set to another reading, or a request for one of the
  routes arrives and its handler runs. \<^verbatim>\<open>datetime.now()\<close> is naive local time:
  it is set back an hour when daylight saving time ends, and by any correction of the
  system clock, so \<open>SetClock\<close> may go either way.
\<close>

datatype event = Elapse nat | SetClock datetime | Request endpoint

text \<open>
  A reply: the route, the address of the object the handler returned, and the object as
  it is read at that address when the handler returns (what gets serialized).
\<close>

type_synonym reply = "endpoint \<times> nat \<times> obj option"

fun run :: "event list \<Rightarrow> process \<Rightarrow> reply list \<times> process" where
  "run [] p = ([], p)"
| "run (Elapse d # es) p = run es (p\<lparr>clock := clock p + d\<rparr>)"
| "run (SetClock t # es) p = run es (p\<lparr>clock := t\<rparr>)"
| "run (Request e # es) p =
     (let (a, p') = call e p; (rs, p'') = run es p'
      in ((e, a, deref p' a) # rs, p''))"

text \<open>The fields of an object by name, as the serializer reads them.\<close>

fun fields :: "obj \<Rightarrow> (string \<times> pyval) list" where
  "fields (PersonalInfoObj r) =
     [(''name'', PyStr (name r)), (''bio'', PyStr (bio r)),
      (''current_status'', PyStr (current_status r)),
      (''last_updated'', PyDatetime (last_updated r))]"
| "fields (StudyInfoObj r) =
     [(''institution'', PyStr (institution r)), (''course'', PyStr (course r)),
      (''year'', PyInt (year r)),
      (''achievements'', (case achievements r of None \<Rightarrow> PyNone | Some d \<Rightarrow> PyDict d))]"
| "fields (DictObj d) = d"

text \<open>
  The field names each route's reply is declared to carry: the keys of the dictionary
  literal in \<^verbatim>\<open>root\<close>, and the fields of the two model classes in
  declaration order.
\<close>

fun declared_fields :: "endpoint \<Rightarrow> string list" where
  "declared_fields Root = [''status'', ''timestamp'']"
| "declared_fields Info = [''name'', ''bio'', ''current_status'', ''last_updated'']"
| "declared_fields Study = [''institution'', ''course'', ''year'', ''achievements'']"

text \<open>
  A run in which the wall clock is never set to a reading earlier than the one it shows:
  every \<open>SetClock\<close> of the run moves it forward or leaves it.
\<close>

fun clock_not_set_back :: "event list \<Rightarrow> process \<Rightarrow> bool" where
  "clock_not_set_back [] p = True"
| "clock_not_set_back (Elapse d # es) p = clock_not_set_back es (p\<lparr>clock := clock p + d\<rparr>)"
| "clock_not_set_back (SetClock t # es) p =
     (clock p \<le> t \<and> clock_not_set_back es (p\<lparr>clock := t\<rparr>))"
| "clock_not_set_back (Request e # es) p = clock_not_set_back es (snd (call e p))"

subsection \<open>The record behind \<^verbatim>\<open>GET /info\<close>\<close>

text \<open>
  The record that the body of \<^verbatim>\<open>get_personal_info\<close> constructs in process
  \<open>p\<close>, and the invariant of the cache: an entry is the address of that record.
\<close>

definition the_personal_info :: "process \<Rightarrow> PersonalInfo" where
  "the_personal_info p =
     \<lparr>name = ''Your Name'', bio = ''Your Bio'', current_status = ''Available'',
      last_updated = PersonalInfo_last_updated_default p\<rparr>"

definition cache_ok :: "process \<Rightarrow> bool" where
  "cache_ok p =
     (case get_personal_info_cache p of
        None \<Rightarrow> True
      | Some a \<Rightarrow> deref p a = Some (PersonalInfoObj (the_personal_info p)))"


section \<open>Properties\<close>

subsection \<open>Allocation, reading and the handlers, one call at a time\<close>

lemma get_personal_info_hit:
  "get_personal_info_cache p = Some c \<Longrightarrow> get_personal_info p = (c, p)"
  by (simp add: get_personal_info_def)

lemma get_personal_info_miss:
  "get_personal_info_cache p = None \<Longrightarrow>
   get_personal_info p =
     (length (heap p),
      p\<lparr>heap := heap p @ [PersonalInfoObj (the_personal_info p)],
        get_personal_info_cache := Some (length (heap p))\<rparr>)"
  by (simp add: get_personal_info_def PersonalInfo_init_def alloc_def the_personal_info_def)

lemma call_shape:
  assumes "call e p = (a, p')"
  shows "(e = Info \<and> get_personal_info_cache p = Some a \<and> p' = p)
       \<or> (e = Info \<and> get_personal_info_cache p = None \<and> a = length (heap p)
            \<and> p' = p\<lparr>heap := heap p @ [PersonalInfoObj (the_personal_info p)],
                     get_personal_info_cache := Some a\<rparr>)
       \<or> (e \<noteq> Info \<and> a = length (heap p) \<and> (\<exists>ob. p' = p\<lparr>heap := heap p @ [ob]\<rparr>))"
proof (cases e)
  case Root
  with assms show ?thesis by (auto simp: root_def alloc_def)
next
  case Info
  show ?thesis
  proof (cases "get_personal_info_cache p")
    case None
    with Info assms show ?thesis by (auto simp: get_info_def get_personal_info_miss)
  next
    case (Some c)
    with Info assms show ?thesis by (auto simp: get_info_def get_personal_info_hit)
  qed
next
  case Study
  with assms show ?thesis by (auto simp: get_study_info_def StudyInfo_init_def alloc_def)
qed

lemma deref_extend:
  "deref p x = Some ob \<Longrightarrow> deref (p\<lparr>heap := heap p @ obs\<rparr>) x = Some ob"
  by (auto simp: deref_def nth_append split: if_splits)

lemma call_deref:
  assumes "call e p = (a, p')" and "deref p x = Some ob"
  shows "deref p' x = Some ob"
  using call_shape [OF assms(1)] assms(2)
  by (auto simp: deref_def nth_append split: if_splits)

lemma call_cache_kept:
  assumes "call e p = (a, p')" and "get_personal_info_cache p = Some c"
  shows "get_personal_info_cache p' = Some c"
  using call_shape [OF assms(1)] assms(2) by auto

lemma call_clock: "call e p = (a, p') \<Longrightarrow> clock p' = clock p"
  by (drule call_shape) auto

lemma call_default:
  "call e p = (a, p') \<Longrightarrow>
   PersonalInfo_last_updated_default p' = PersonalInfo_last_updated_default p"
  by (drule call_shape) auto

lemma the_personal_info_heap [simp]:
  "the_personal_info (p\<lparr>heap := h\<rparr>) = the_personal_info p"
  "the_personal_info (p\<lparr>get_personal_info_cache := c\<rparr>) = the_personal_info p"
  "the_personal_info (p\<lparr>clock := t\<rparr>) = the_personal_info p"
  by (simp_all add: the_personal_info_def)

lemma deref_new: "deref (p\<lparr>heap := heap p @ [ob]\<rparr>) (length (heap p)) = Some ob"
  by (simp add: deref_def)

lemma deref_cache_upd [simp]: "deref (p\<lparr>get_personal_info_cache := c\<rparr>) x = deref p x"
  by (simp add: deref_def)

lemma deref_clock_upd [simp]: "deref (p\<lparr>clock := t\<rparr>) x = deref p x"
  by (simp add: deref_def)

lemma call_cache_ok:
  assumes "call e p = (a, p')" and "cache_ok p"
  shows "cache_ok p'"
proof -
  consider (hit) "p' = p"
    | (miss) "p' = p\<lparr>heap := heap p @ [PersonalInfoObj (the_personal_info p)],
                     get_personal_info_cache := Some (length (heap p))\<rparr>"
    | (other) ob where "p' = p\<lparr>heap := heap p @ [ob]\<rparr>"
    using call_shape [OF assms(1)] by auto
  then show ?thesis
  proof cases
    case hit
    with assms(2) show ?thesis by simp
  next
    case miss
    then show ?thesis by (simp add: cache_ok_def deref_new)
  next
    case other
    with assms(2) show ?thesis
      by (auto simp: cache_ok_def deref_extend split: option.splits)
  qed
qed

lemma elapse_cache_ok: "cache_ok p \<Longrightarrow> cache_ok (p\<lparr>clock := t\<rparr>)"
  by (simp add: cache_ok_def split: option.splits)

lemma load_module_cache_ok: "cache_ok (load_module t)"
  by (simp add: cache_ok_def load_module_def)

lemma call_Info_reply:
  assumes "call Info p = (a, p')" and "cache_ok p"
  shows "deref p' a = Some (PersonalInfoObj (the_personal_info p))
       \<and> get_personal_info_cache p' = Some a"
proof -
  consider (hit) "get_personal_info_cache p = Some a" "p' = p"
    | (miss) "a = length (heap p)"
        "p' = p\<lparr>heap := heap p @ [PersonalInfoObj (the_personal_info p)],
                get_personal_info_cache := Some a\<rparr>"
    using call_shape [OF assms(1)] by auto
  then show ?thesis
  proof cases
    case hit
    with assms(2) show ?thesis by (simp add: cache_ok_def)
  next
    case miss
    then show ?thesis by (simp add: deref_new)
  qed
qed

lemma call_the_personal_info:
  "call e p = (a, p') \<Longrightarrow> the_personal_info p' = the_personal_info p"
  by (simp add: the_personal_info_def call_default)

lemma run_Info_cached:
  assumes "cache_ok p" and "get_personal_info_cache p = Some c"
    and "(Info, a, b) \<in> set (fst (run evs p))"
  shows "a = c \<and> b = Some (PersonalInfoObj (the_personal_info p))"
  using assms
proof (induction evs arbitrary: p)
  case Nil
  then show ?case by simp
next
  case (Cons ev evs)
  show ?case
  proof (cases ev)
    case (Elapse d)
    with Cons.prems Cons.IH [of "p\<lparr>clock := clock p + d\<rparr>"] show ?thesis
      by (simp add: elapse_cache_ok)
  next
    case (SetClock t)
    with Cons.prems Cons.IH [of "p\<lparr>clock := t\<rparr>"] show ?thesis
      by (simp add: elapse_cache_ok)
  next
    case (Request e)
    obtain a' p' where c: "call e p = (a', p')" by (cases "call e p")
    have ok: "cache_ok p'" and kept: "get_personal_info_cache p' = Some c"
      and same: "the_personal_info p' = the_personal_info p"
      using c Cons.prems(1,2)
      by (simp_all add: call_cache_ok call_cache_kept call_the_personal_info)
    from Cons.prems(3) Request c
    consider (head) "e = Info" "a = a'" "b = deref p' a'"
      | (tail) "(Info, a, b) \<in> set (fst (run evs p'))"
      by (auto simp: split_beta)
    then show ?thesis
    proof cases
      case head
      with c Cons.prems(1) kept show ?thesis
        using call_Info_reply [of p a' p'] by simp
    next
      case tail
      with Cons.IH [OF ok kept] same show ?thesis by simp
    qed
  qed
qed

lemma run_Info_reply:
  assumes "cache_ok p" and "(Info, a, b) \<in> set (fst (run evs p))"
  shows "b = Some (PersonalInfoObj (the_personal_info p))"
  using assms
proof (induction evs arbitrary: p)
  case Nil
  then show ?case by simp
next
  case (Cons ev evs)
  show ?case
  proof (cases ev)
    case (Elapse d)
    with Cons.prems Cons.IH [of "p\<lparr>clock := clock p + d\<rparr>"] show ?thesis
      by (simp add: elapse_cache_ok)
  next
    case (SetClock t)
    with Cons.prems Cons.IH [of "p\<lparr>clock := t\<rparr>"] show ?thesis
      by (simp add: elapse_cache_ok)
  next
    case (Request e)
    obtain a' p' where c: "call e p = (a', p')" by (cases "call e p")
    have ok: "cache_ok p'" and same: "the_personal_info p' = the_personal_info p"
      using c Cons.prems(1) by (simp_all add: call_cache_ok call_the_personal_info)
    from Cons.prems(2) Request c
    consider (head) "e = Info" "a = a'" "b = deref p' a'"
      | (tail) "(Info, a, b) \<in> set (fst (run evs p'))"
      by (auto simp: split_beta)
    then show ?thesis
    proof cases
      case head
      with c Cons.prems(1) show ?thesis
        using call_Info_reply [of p a' p'] by simp
    next
      case tail
      with Cons.IH [OF ok] same show ?thesis by simp
    qed
  qed
qed

lemma run_Info_same_address:
  assumes "cache_ok p" and "(Info, a1, b1) \<in> set (fst (run evs p))"
    and "(Info, a2, b2) \<in> set (fst (run evs p))"
  shows "a1 = a2"
  using assms
proof (induction evs arbitrary: p)
  case Nil
  then show ?case by simp
next
  case (Cons ev evs)
  show ?case
  proof (cases ev)
    case (Elapse d)
    with Cons.prems Cons.IH [of "p\<lparr>clock := clock p + d\<rparr>"] show ?thesis
      by (simp add: elapse_cache_ok)
  next
    case (SetClock t)
    with Cons.prems Cons.IH [of "p\<lparr>clock := t\<rparr>"] show ?thesis
      by (simp add: elapse_cache_ok)
  next
    case (Request e)
    obtain a' p' where c: "call e p = (a', p')" by (cases "call e p")
    have ok: "cache_ok p'" using c Cons.prems(1) by (rule call_cache_ok)
    show ?thesis
    proof (cases "e = Info")
      case True
      with c Cons.prems(1) have cached: "get_personal_info_cache p' = Some a'"
        using call_Info_reply [of p a' p'] by simp
      have "a = a'" if "(Info, a, b) \<in> set (fst (run (ev # evs) p))" for a b
      proof -
        from that Request c have "a = a' \<or> (Info, a, b) \<in> set (fst (run evs p'))"
          by (auto simp: split_beta)
        then show ?thesis using run_Info_cached [OF ok cached] by blast
      qed
      with Cons.prems(2,3) show ?thesis by blast
    next
      case False
      with Cons.prems(2,3) Request c
      have "(Info, a1, b1) \<in> set (fst (run evs p'))" "(Info, a2, b2) \<in> set (fst (run evs p'))"
        by (auto simp: split_beta)
      with Cons.IH [OF ok] show ?thesis by blast
    qed
  qed
qed

lemma run_append:
  "run (evs1 @ evs2) p =
     (fst (run evs1 p) @ fst (run evs2 (snd (run evs1 p))), snd (run evs2 (snd (run evs1 p))))"
proof (induction evs1 arbitrary: p)
  case Nil
  then show ?case by simp
next
  case (Cons ev evs1)
  then show ?case by (cases ev) (simp_all add: split_beta)
qed

lemma run_reply_origin:
  assumes "(e, a, b) \<in> set (fst (run evs p))"
  shows "\<exists>evs1 evs2. evs = evs1 @ Request e # evs2
           \<and> a = fst (call e (snd (run evs1 p)))
           \<and> b = deref (snd (call e (snd (run evs1 p)))) a"
  using assms
proof (induction evs arbitrary: p)
  case Nil
  then show ?case by simp
next
  case (Cons ev evs)
  show ?case
  proof (cases ev)
    case (Elapse d)
    with Cons.prems have "(e, a, b) \<in> set (fst (run evs (p\<lparr>clock := clock p + d\<rparr>)))"
      by simp
    from Cons.IH [OF this] obtain evs1 evs2 where
      "evs = evs1 @ Request e # evs2"
      "a = fst (call e (snd (run evs1 (p\<lparr>clock := clock p + d\<rparr>))))"
      "b = deref (snd (call e (snd (run evs1 (p\<lparr>clock := clock p + d\<rparr>))))) a"
      by blast
    with Elapse have "ev # evs = (ev # evs1) @ Request e # evs2
        \<and> a = fst (call e (snd (run (ev # evs1) p)))
        \<and> b = deref (snd (call e (snd (run (ev # evs1) p)))) a"
      by simp
    then show ?thesis by blast
  next
    case (SetClock t)
    with Cons.prems have "(e, a, b) \<in> set (fst (run evs (p\<lparr>clock := t\<rparr>)))"
      by simp
    from Cons.IH [OF this] obtain evs1 evs2 where
      "evs = evs1 @ Request e # evs2"
      "a = fst (call e (snd (run evs1 (p\<lparr>clock := t\<rparr>))))"
      "b = deref (snd (call e (snd (run evs1 (p\<lparr>clock := t\<rparr>))))) a"
      by blast
    with SetClock have "ev # evs = (ev # evs1) @ Request e # evs2
        \<and> a = fst (call e (snd (run (ev # evs1) p)))
        \<and> b = deref (snd (call e (snd (run (ev # evs1) p)))) a"
      by simp
    then show ?thesis by blast
  next
    case (Request e')
    from Cons.prems Request
    consider (head) "e = e'" "a = fst (call e' p)" "b = deref (snd (call e' p)) (fst (call e' p))"
      | (tail) "(e, a, b) \<in> set (fst (run evs (snd (call e' p))))"
      by (auto simp: split_beta)
    then show ?thesis
    proof cases
      case head
      with Request have "ev # evs = [] @ Request e # evs
          \<and> a = fst (call e (snd (run [] p)))
          \<and> b = deref (snd (call e (snd (run [] p)))) a"
        by simp
      then show ?thesis by blast
    next
      case tail
      from Cons.IH [OF this] obtain evs1 evs2 where
        "evs = evs1 @ Request e # evs2"
        "a = fst (call e (snd (run evs1 (snd (call e' p)))))"
        "b = deref (snd (call e (snd (run evs1 (snd (call e' p)))))) a"
        by blast
      with Request have "ev # evs = (ev # evs1) @ Request e # evs2
          \<and> a = fst (call e (snd (run (ev # evs1) p)))
          \<and> b = deref (snd (call e (snd (run (ev # evs1) p)))) a"
        by (simp add: split_beta)
      then show ?thesis by blast
    qed
  qed
qed

lemma run_clock_mono:
  assumes "clock_not_set_back evs p"
  shows "clock p \<le> clock (snd (run evs p))"
  using assms
proof (induction evs arbitrary: p)
  case Nil
  then show ?case by simp
next
  case (Cons ev evs)
  show ?case
  proof (cases ev)
    case (Elapse d)
    with Cons.prems Cons.IH [of "p\<lparr>clock := clock p + d\<rparr>"] show ?thesis by simp
  next
    case (SetClock t)
    with Cons.prems Cons.IH [of "p\<lparr>clock := t\<rparr>"] show ?thesis by simp
  next
    case (Request e)
    have "clock (snd (call e p)) = clock p"
      by (rule call_clock [of e p "fst (call e p)"]) simp
    with Request Cons.prems Cons.IH [of "snd (call e p)"] show ?thesis
      by (simp add: split_beta)
  qed
qed

lemma run_deref:
  assumes "deref p x = Some ob"
  shows "deref (snd (run evs p)) x = Some ob"
  using assms
proof (induction evs arbitrary: p)
  case Nil
  then show ?case by simp
next
  case (Cons ev evs)
  show ?case
  proof (cases ev)
    case (Elapse d)
    with Cons.prems Cons.IH [of "p\<lparr>clock := clock p + d\<rparr>"] show ?thesis by simp
  next
    case (SetClock t)
    with Cons.prems Cons.IH [of "p\<lparr>clock := t\<rparr>"] show ?thesis by simp
  next
    case (Request e)
    have "deref (snd (call e p)) x = Some ob"
      by (rule call_deref [of e p "fst (call e p)"]) (simp_all add: Cons.prems)
    with Request Cons.IH [of "snd (call e p)"] show ?thesis by (simp add: split_beta)
  qed
qed

lemma run_cache_kept:
  assumes "get_personal_info_cache p = Some c"
  shows "get_personal_info_cache (snd (run evs p)) = Some c"
  using assms
proof (induction evs arbitrary: p)
  case Nil
  then show ?case by simp
next
  case (Cons ev evs)
  show ?case
  proof (cases ev)
    case (Elapse d)
    with Cons.prems Cons.IH [of "p\<lparr>clock := clock p + d\<rparr>"] show ?thesis by simp
  next
    case (SetClock t)
    with Cons.prems Cons.IH [of "p\<lparr>clock := t\<rparr>"] show ?thesis by simp
  next
    case (Request e)
    have "get_personal_info_cache (snd (call e p)) = Some c"
      by (rule call_cache_kept [of e p "fst (call e p)"]) (simp_all add: Cons.prems)
    with Request Cons.IH [of "snd (call e p)"] show ?thesis by (simp add: split_beta)
  qed
qed

lemma run_default:
  "PersonalInfo_last_updated_default (snd (run evs p)) = PersonalInfo_last_updated_default p"
proof (induction evs arbitrary: p)
  case Nil
  then show ?case by simp
next
  case (Cons ev evs)
  show ?case
  proof (cases ev)
    case (Elapse d)
    with Cons [of "p\<lparr>clock := clock p + d\<rparr>"] show ?thesis by simp
  next
    case (SetClock t)
    with Cons [of "p\<lparr>clock := t\<rparr>"] show ?thesis by simp
  next
    case (Request e)
    have "PersonalInfo_last_updated_default (snd (call e p)) = PersonalInfo_last_updated_default p"
      by (rule call_default [of e p "fst (call e p)"]) simp
    with Request Cons [of "snd (call e p)"] show ?thesis by (simp add: split_beta)
  qed
qed

lemma root_deref:
  "deref (snd (root p)) (fst (root p)) =
     Some (DictObj [(''status'', PyStr ''online''), (''timestamp'', PyDatetime (clock p))])"
  by (simp add: root_def alloc_def deref_def datetime_now_def)

lemma get_study_info_deref:
  "deref (snd (get_study_info p)) (fst (get_study_info p)) =
     Some (StudyInfoObj \<lparr>institution = ''Your University'', course = ''Your Course'',
       year = 2024,
       achievements = Some [(''2024'', ''Dean's List''), (''2023'', ''Best Project Award'')]\<rparr>)"
  by (simp add: get_study_info_def StudyInfo_init_def alloc_def deref_def)

subsection \<open>Replies of \<^verbatim>\<open>GET /\<close> and \<^verbatim>\<open>GET /study\<close> in a run\<close>

lemma run_Root_reply:
  assumes "(Root, a, b) \<in> set (fst (run evs p))"
  shows "\<exists>t. b = Some (DictObj [(''status'', PyStr ''online''), (''timestamp'', PyDatetime t)])"
proof -
  from run_reply_origin [OF assms] obtain evs1 where
    "b = deref (snd (call Root (snd (run evs1 p)))) (fst (call Root (snd (run evs1 p))))"
    by blast
  then show ?thesis using root_deref [of "snd (run evs1 p)"] by simp
qed

lemma run_Study_reply:
  assumes "(Study, a, b) \<in> set (fst (run evs p))"
  shows "b = Some (StudyInfoObj \<lparr>institution = ''Your University'', course = ''Your Course'',
       year = 2024,
       achievements = Some [(''2024'', ''Dean's List''), (''2023'', ''Best Project Award'')]\<rparr>)"
proof -
  from run_reply_origin [OF assms] obtain evs1 where
    "b = deref (snd (call Study (snd (run evs1 p)))) (fst (call Study (snd (run evs1 p))))"
    by blast
  then show ?thesis using get_study_info_deref [of "snd (run evs1 p)"] by simp
qed

subsection \<open>Memoization of \<^verbatim>\<open>GET /info\<close>\<close>

text \<open>
  C1. In a run of the process, started by loading the module at any clock reading and
  continued by any sequence of requests and passages of time, any two replies of
  \<^verbatim>\<open>GET /info\<close> are the same object (the same address) holding the same
  \<^verbatim>\<open>PersonalInfo\<close> record, so their \<^verbatim>\<open>last_updated\<close> values are equal.
\<close>

theorem get_info_same_record:
  assumes "(Info, a1, b1) \<in> set (fst (run evs (load_module t)))"
    and "(Info, a2, b2) \<in> set (fst (run evs (load_module t)))"
  shows "a1 = a2 \<and> b1 = b2
       \<and> (\<exists>r1 r2. b1 = Some (PersonalInfoObj r1) \<and> b2 = Some (PersonalInfoObj r2)
             \<and> last_updated r1 = last_updated r2)"
  using run_Info_same_address [OF load_module_cache_ok assms]
    run_Info_reply [OF load_module_cache_ok assms(1)]
    run_Info_reply [OF load_module_cache_ok assms(2)]
  by simp


theorem get_info_same_record_witness:
  "(Info, 0, Some (PersonalInfoObj \<lparr>name = ''Your Name'', bio = ''Your Bio'',
       current_status = ''Available'', last_updated = 100\<rparr>))
     \<in> set (fst (run [Request Info, Elapse 5, Request Root, Request Info] (load_module 100)))
   \<and> fst (run [Request Info, Elapse 5, Request Root, Request Info] (load_module 100)) ! 0
     = fst (run [Request Info, Elapse 5, Request Root, Request Info] (load_module 100)) ! 2"
proof -
  have h: "(Info, 0, Some (PersonalInfoObj \<lparr>name = ''Your Name'', bio = ''Your Bio'',
       current_status = ''Available'', last_updated = 100\<rparr>))
     \<in> set (fst (run [Request Info, Elapse 5, Request Root, Request Info] (load_module 100)))"
    by (simp add: load_module_def get_info_def get_personal_info_def PersonalInfo_init_def
        alloc_def deref_def root_def datetime_now_def)
  have r: "fst (run [Request Info, Elapse 5, Request Root, Request Info] (load_module 100)) ! 0
     = fst (run [Request Info, Elapse 5, Request Root, Request Info] (load_module 100)) ! 2"
    by (simp add: load_module_def get_info_def get_personal_info_def PersonalInfo_init_def
        alloc_def deref_def root_def datetime_now_def)
  show ?thesis using h r get_info_same_record [OF h h] by simp
qed

subsection \<open>The default of \<^verbatim>\<open>last_updated\<close>\<close>

text \<open>
  C2. The claim is that a \<^verbatim>\<open>PersonalInfo\<close> constructed without
  \<^verbatim>\<open>last_updated\<close> carries the time of that construction. The code evaluates
  \<^verbatim>\<open>datetime.now()\<close> once, in the class body, so the field carries the time at
  which the class was defined. Evaluated: the module is loaded at clock reading 100, 50
  microseconds pass, and a record constructed at clock reading 150 (directly, and by the
  first \<^verbatim>\<open>GET /info\<close>) has \<^verbatim>\<open>last_updated\<close> 100.
\<close>

theorem PersonalInfo_default_is_definition_time:
  "datetime_now (snd (run [Elapse 50] (load_module 100))) = 150
   \<and> deref (snd (PersonalInfo_init ''n'' ''b'' ''s'' None (snd (run [Elapse 50] (load_module 100)))))
        (fst (PersonalInfo_init ''n'' ''b'' ''s'' None (snd (run [Elapse 50] (load_module 100)))))
      = Some (PersonalInfoObj
          \<lparr>name = ''n'', bio = ''b'', current_status = ''s'', last_updated = 100\<rparr>)
   \<and> fst (run [Elapse 50, Request Info] (load_module 100))
      = [(Info, 0, Some (PersonalInfoObj
          \<lparr>name = ''Your Name'', bio = ''Your Bio'', current_status = ''Available'',
           last_updated = 100\<rparr>))]"
  by (simp add: load_module_def datetime_now_def PersonalInfo_init_def alloc_def deref_def
      get_info_def get_personal_info_def)

subsection \<open>\<^verbatim>\<open>GET /study\<close>\<close>

text \<open>
  C3. In every process state, \<^verbatim>\<open>get_study_info\<close> returns the address of a
  \<^verbatim>\<open>StudyInfo\<close> with institution "Your University", course "Your Course", year
  2024 and achievements the dictionary with exactly the two entries "2024": "Dean's List"
  and "2023": "Best Project Award". The object is fresh (its address held nothing before
  the call) and the call leaves the cache of \<^verbatim>\<open>get_personal_info\<close> as it was:
  nothing is cached.
\<close>

theorem get_study_info_reply:
  "\<exists>r d. deref (snd (get_study_info p)) (fst (get_study_info p)) = Some (StudyInfoObj r)
     \<and> institution r = ''Your University'' \<and> course r = ''Your Course'' \<and> year r = 2024
     \<and> achievements r = Some d
     \<and> d = [(''2024'', ''Dean's List''), (''2023'', ''Best Project Award'')]
     \<and> length d = 2 \<and> distinct (map fst d)
     \<and> map_of d = [''2024'' \<mapsto> ''Dean's List'', ''2023'' \<mapsto> ''Best Project Award'']
     \<and> deref p (fst (get_study_info p)) = None
     \<and> get_personal_info_cache (snd (get_study_info p)) = get_personal_info_cache p"
proof -
  have "map_of [(''2024'', ''Dean's List''), (''2023'', ''Best Project Award'')]
      = [''2024'' \<mapsto> ''Dean's List'', ''2023'' \<mapsto> ''Best Project Award'']"
    by (rule ext) simp
  moreover have "deref p (fst (get_study_info p)) = None"
    by (simp add: get_study_info_def StudyInfo_init_def alloc_def deref_def)
  moreover have "get_personal_info_cache (snd (get_study_info p)) = get_personal_info_cache p"
    by (simp add: get_study_info_def StudyInfo_init_def alloc_def)
  ultimately show ?thesis using get_study_info_deref [of p] by simp
qed

subsection \<open>\<^verbatim>\<open>GET /info\<close>\<close>

text \<open>
  C4. In a run started by loading the module, every reply of \<^verbatim>\<open>GET /info\<close> is a
  \<^verbatim>\<open>PersonalInfo\<close> with name "Your Name", bio "Your Bio" and current_status
  "Available".
\<close>

theorem get_info_fields:
  assumes "(Info, a, b) \<in> set (fst (run evs (load_module t)))"
  shows "\<exists>r. b = Some (PersonalInfoObj r) \<and> name r = ''Your Name'' \<and> bio r = ''Your Bio''
           \<and> current_status r = ''Available''"
  using run_Info_reply [OF load_module_cache_ok assms] by (simp add: the_personal_info_def)

theorem get_info_fields_witness:
  "(Info, 1, Some (PersonalInfoObj \<lparr>name = ''Your Name'', bio = ''Your Bio'',
       current_status = ''Available'', last_updated = 7\<rparr>))
     \<in> set (fst (run [Request Study, Elapse 3, Request Info] (load_module 7)))
   \<and> (\<exists>r. Some (PersonalInfoObj \<lparr>name = ''Your Name'', bio = ''Your Bio'',
             current_status = ''Available'', last_updated = 7\<rparr>) = Some (PersonalInfoObj r)
          \<and> name r = ''Your Name'' \<and> bio r = ''Your Bio'' \<and> current_status r = ''Available'')"
proof -
  have h: "(Info, 1, Some (PersonalInfoObj \<lparr>name = ''Your Name'', bio = ''Your Bio'',
       current_status = ''Available'', last_updated = 7\<rparr>))
     \<in> set (fst (run [Request Study, Elapse 3, Request Info] (load_module 7)))"
    by (simp add: load_module_def get_info_def get_personal_info_def PersonalInfo_init_def
        alloc_def deref_def get_study_info_def StudyInfo_init_def)
  show ?thesis using h get_info_fields [OF h] by blast
qed

subsection \<open>\<^verbatim>\<open>GET /\<close>\<close>


subsection \<open>Fields of the replies\<close>

text \<open>
  C6. In a run started by loading the module, the reply of every request is an object
  that has all the fields declared for its route, and none of them is \<^verbatim>\<open>None\<close>,
  the field \<^verbatim>\<open>achievements\<close> left aside. That field may be absent: a
  \<^verbatim>\<open>StudyInfo\<close> constructed without it holds \<^verbatim>\<open>None\<close> there.
\<close>

theorem reply_fields_present:
  assumes "(e, a, b) \<in> set (fst (run evs (load_module t)))"
  shows "(\<exists>ob. b = Some ob \<and> map fst (fields ob) = declared_fields e
            \<and> (\<forall>k v. (k, v) \<in> set (fields ob) \<and> k \<noteq> ''achievements'' \<longrightarrow> v \<noteq> PyNone))
       \<and> (\<exists>ob. deref (snd (StudyInfo_init i c y None p)) (fst (StudyInfo_init i c y None p)) = Some ob
            \<and> (''achievements'', PyNone) \<in> set (fields ob))"
proof -
  have "\<exists>ob. b = Some ob \<and> map fst (fields ob) = declared_fields e
            \<and> (\<forall>k v. (k, v) \<in> set (fields ob) \<and> k \<noteq> ''achievements'' \<longrightarrow> v \<noteq> PyNone)"
  proof (cases e)
    case Root
    with run_Root_reply [of a b evs "load_module t"] assms show ?thesis by auto
  next
    case Info
    with run_Info_reply [OF load_module_cache_ok, of a b evs t] assms show ?thesis by auto
  next
    case Study
    with run_Study_reply [of a b evs "load_module t"] assms show ?thesis by auto
  qed
  moreover have "\<exists>ob. deref (snd (StudyInfo_init i c y None p)) (fst (StudyInfo_init i c y None p)) = Some ob
            \<and> (''achievements'', PyNone) \<in> set (fields ob)"
    by (simp add: StudyInfo_init_def alloc_def deref_def)
  ultimately show ?thesis by blast
qed

theorem reply_fields_present_witness:
  "(Study, 1, Some (StudyInfoObj \<lparr>institution = ''Your University'', course = ''Your Course'',
       year = 2024,
       achievements = Some [(''2024'', ''Dean's List''), (''2023'', ''Best Project Award'')]\<rparr>))
     \<in> set (fst (run [Request Info, Request Study] (load_module 7)))
   \<and> map fst (fields (StudyInfoObj \<lparr>institution = ''Your University'',
       course = ''Your Course'', year = 2024,
       achievements = Some [(''2024'', ''Dean's List''), (''2023'', ''Best Project Award'')]\<rparr>))
     = declared_fields Study"
proof -
  have h: "(Study, 1, Some (StudyInfoObj \<lparr>institution = ''Your University'',
       course = ''Your Course'', year = 2024,
       achievements = Some [(''2024'', ''Dean's List''), (''2023'', ''Best Project Award'')]\<rparr>))
     \<in> set (fst (run [Request Info, Request Study] (load_module 7)))"
    by (simp add: load_module_def get_info_def get_personal_info_def PersonalInfo_init_def
        alloc_def deref_def get_study_info_def StudyInfo_init_def)
  show ?thesis using h reply_fields_present [OF h] by blast
qed

subsection \<open>The timestamp of \<^verbatim>\<open>GET /\<close> against the clock\<close>

text \<open>
  C8, as stated, fails. The claim is that a timestamp returned by \<^verbatim>\<open>GET /\<close> is
  never older than the moment observation began. The handler stamps the reading of the
  wall clock, and the wall clock can be set back: the module is loaded at reading 100,
  the clock is set to 60, and \<^verbatim>\<open>GET /\<close> then returns the timestamp 60, which is
  before 100.
\<close>

theorem root_timestamp_before_start_counterexample:
  "clock (load_module 100) = 100
   \<and> fst (run [SetClock 60, Request Root] (load_module 100))
      = [(Root, 0, Some (DictObj [(''status'', PyStr ''online''), (''timestamp'', PyDatetime 60)]))]
   \<and> \<not> clock (load_module 100) \<le> 60"
  by (simp add: load_module_def root_def datetime_now_def alloc_def deref_def)

text \<open>
  C8, amended. Start observing the process in any state \<open>p\<close>, at clock reading \<open>clock p\<close>,
  let any requests, passages of time and clock settings \<open>evs\<close> follow, and then call
  \<^verbatim>\<open>GET /\<close>. The timestamp of its reply is the reading of the wall clock at the
  moment of that call. If the clock was not set back in between, that timestamp is no
  earlier than \<open>clock p\<close>.
\<close>

theorem root_timestamp_not_before_start:
  assumes "clock_not_set_back evs p"
  shows "\<exists>a. last (fst (run (evs @ [Request Root]) p))
             = (Root, a, Some (DictObj [(''status'', PyStr ''online''),
                 (''timestamp'', PyDatetime (clock (snd (run evs p))))]))
           \<and> clock p \<le> clock (snd (run evs p))"
  using run_clock_mono [OF assms] root_deref [of "snd (run evs p)"]
  by (simp add: run_append split_beta)

theorem root_timestamp_not_before_start_witness:
  "clock_not_set_back [Elapse 5, Request Info, SetClock 120] (load_module 100)
   \<and> last (fst (run ([Elapse 5, Request Info, SetClock 120] @ [Request Root]) (load_module 100)))
      = (Root, 1, Some (DictObj [(''status'', PyStr ''online''), (''timestamp'', PyDatetime 120)]))
   \<and> clock (load_module 100) \<le> clock (snd (run [Elapse 5, Request Info, SetClock 120] (load_module 100)))"
proof -
  have h: "clock_not_set_back [Elapse 5, Request Info, SetClock 120] (load_module 100)"
    by (simp add: load_module_def get_info_def get_personal_info_def PersonalInfo_init_def
        alloc_def)
  have r: "last (fst (run ([Elapse 5, Request Info, SetClock 120] @ [Request Root]) (load_module 100)))
      = (Root, 1, Some (DictObj [(''status'', PyStr ''online''), (''timestamp'', PyDatetime 120)]))"
    by (simp add: load_module_def get_info_def get_personal_info_def PersonalInfo_init_def
        alloc_def deref_def root_def datetime_now_def)
  show ?thesis using h r root_timestamp_not_before_start [OF h] by blast
qed

subsection \<open>What the handlers write\<close>

text \<open>
  C9. No handler changes an object that exists: after a call of any handler, and after
  any run, every address that held an object holds the same object, the memoized
  \<^verbatim>\<open>PersonalInfo\<close> included. A handler leaves the clock and the class default as
  they were. The cache is written only by \<^verbatim>\<open>get_info\<close>, only when it is empty,
  and then with the address of the object just constructed; a filled cache keeps its
  entry through every call and every run, so it is written at most once.
\<close>

theorem handlers_mutate_nothing:
  "(\<forall>x ob. deref p x = Some ob \<longrightarrow> deref (snd (call e p)) x = Some ob)
   \<and> (\<forall>c. get_personal_info_cache p = Some c \<longrightarrow> get_personal_info_cache (snd (call e p)) = Some c)
   \<and> clock (snd (call e p)) = clock p
   \<and> PersonalInfo_last_updated_default (snd (call e p)) = PersonalInfo_last_updated_default p
   \<and> (get_personal_info_cache (snd (call e p)) = get_personal_info_cache p
        \<or> e = Info \<and> get_personal_info_cache p = None
            \<and> get_personal_info_cache (snd (call e p)) = Some (fst (call e p))
            \<and> deref p (fst (call e p)) = None)
   \<and> (\<forall>x ob. deref p x = Some ob \<longrightarrow> deref (snd (run evs p)) x = Some ob)
   \<and> (\<forall>c. get_personal_info_cache p = Some c \<longrightarrow> get_personal_info_cache (snd (run evs p)) = Some c)"
proof -
  have c: "call e p = (fst (call e p), snd (call e p))" by simp
  have "get_personal_info_cache (snd (call e p)) = get_personal_info_cache p
        \<or> e = Info \<and> get_personal_info_cache p = None
            \<and> get_personal_info_cache (snd (call e p)) = Some (fst (call e p))
            \<and> deref p (fst (call e p)) = None"
    using call_shape [OF c] by (auto simp: deref_def)
  then show ?thesis
    using call_deref [OF c] call_cache_kept [OF c] call_clock [OF c] call_default [OF c]
      run_deref [of p] run_cache_kept [of p]
    by blast
qed

theorem handlers_mutate_nothing_witness:
  "deref (snd (get_info (load_module 100))) 0
     = Some (PersonalInfoObj \<lparr>name = ''Your Name'', bio = ''Your Bio'',
         current_status = ''Available'', last_updated = 100\<rparr>)
   \<and> get_personal_info_cache (snd (get_info (load_module 100))) = Some 0
   \<and> deref (snd (call Info (snd (get_info (load_module 100))))) 0
     = Some (PersonalInfoObj \<lparr>name = ''Your Name'', bio = ''Your Bio'',
         current_status = ''Available'', last_updated = 100\<rparr>)
   \<and> get_personal_info_cache (snd (call Info (snd (get_info (load_module 100))))) = Some 0
   \<and> deref (snd (run [Request Root, Elapse 9, Request Study, Request Info]
         (snd (get_info (load_module 100))))) 0
     = Some (PersonalInfoObj \<lparr>name = ''Your Name'', bio = ''Your Bio'',
         current_status = ''Available'', last_updated = 100\<rparr>)
   \<and> get_personal_info_cache (snd (run [Request Root, Elapse 9, Request Study, Request Info]
         (snd (get_info (load_module 100))))) = Some 0"
proof -
  have h1: "deref (snd (get_info (load_module 100))) 0
     = Some (PersonalInfoObj \<lparr>name = ''Your Name'', bio = ''Your Bio'',
         current_status = ''Available'', last_updated = 100\<rparr>)"
    by (simp add: load_module_def get_info_def get_personal_info_def PersonalInfo_init_def
        alloc_def deref_def)
  have h2: "get_personal_info_cache (snd (get_info (load_module 100))) = Some 0"
    by (simp add: load_module_def get_info_def get_personal_info_def PersonalInfo_init_def
        alloc_def)
  show ?thesis
    using h1 h2
      handlers_mutate_nothing [of "snd (get_info (load_module 100))" Info
        "[Request Root, Elapse 9, Request Study, Request Info]"]
    by blast
qed

subsection \<open>The achievements of \<^verbatim>\<open>GET /study\<close> are never \<^verbatim>\<open>None\<close>\<close>

text \<open>
  C10. The field \<^verbatim>\<open>achievements\<close> is optional in the model class, but in every
  run, from any process state, every reply of \<^verbatim>\<open>GET /study\<close> carries a dictionary
  there, not \<^verbatim>\<open>None\<close>.
\<close>

theorem get_study_info_achievements_present:
  assumes "(Study, a, b) \<in> set (fst (run evs p))"
  shows "\<exists>r d. b = Some (StudyInfoObj r) \<and> achievements r = Some d
           \<and> map_of (fields (StudyInfoObj r)) ''achievements'' = Some (PyDict d)"
  using run_Study_reply [OF assms] by simp

theorem get_study_info_achievements_present_witness:
  "(Study, 0, Some (StudyInfoObj \<lparr>institution = ''Your University'', course = ''Your Course'',
       year = 2024,
       achievements = Some [(''2024'', ''Dean's List''), (''2023'', ''Best Project Award'')]\<rparr>))
     \<in> set (fst (run [Request Study, Request Root] (load_module 3)))
   \<and> (\<exists>r d. Some (StudyInfoObj \<lparr>institution = ''Your University'', course = ''Your Course'',
         year = 2024,
         achievements = Some [(''2024'', ''Dean's List''), (''2023'', ''Best Project Award'')]\<rparr>)
          = Some (StudyInfoObj r)
        \<and> achievements r = Some d
        \<and> map_of (fields (StudyInfoObj r)) ''achievements'' = Some (PyDict d))"
proof -
  have h: "(Study, 0, Some (StudyInfoObj \<lparr>institution = ''Your University'',
       course = ''Your Course'', year = 2024,
       achievements = Some [(''2024'', ''Dean's List''), (''2023'', ''Best Project Award'')]\<rparr>))
     \<in> set (fst (run [Request Study, Request Root] (load_module 3)))"
    by (simp add: load_module_def root_def datetime_now_def alloc_def deref_def
        get_study_info_def StudyInfo_init_def)
  show ?thesis using h get_study_info_achievements_present [OF h] by blast
qed

end
